theory Spec2Isabelle
  imports Main "HOL-Library.Word"
begin

section \<open>Data model of nfsd.go\<close>

text \<open>
  Every counter of the source is a Go \<open>uint64\<close>, modelled as a 64-bit word. Each struct
  of the source is a record with the source's field names; where two structs share a field
  name the later record hides the short name and the earlier one is written qualified.
\<close>

type_synonym u64 = "64 word"

text \<open>rc line: Reply Cache\<close>

record NFSdReplyCache =
  Hits :: u64
  Misses :: u64
  NoCache :: u64

text \<open>fh line: File Handles\<close>

record NFSdFileHandles =
  Stale :: u64
  TotalLookups :: u64
  AnonLookups :: u64
  DirNoCache :: u64
  NoDirNoCache :: u64

text \<open>io line: Input Output\<close>

record NFSdInputOutput =
  Read :: u64
  Write :: u64

text \<open>th line: Threads\<close>

record NFSdThreads =
  Threads :: u64
  FullCnt :: u64

text \<open>ra line: Read Ahead Cache. The array \<open>[10]uint64\<close> is a list of ten words.\<close>

record NFSdReadAheadCache =
  CacheSize :: u64
  CacheHistogram :: "u64 list"
  NotFound :: u64

text \<open>net line: Network\<close>

record NFSdNetwork =
  NetCount :: u64
  UDPCount :: u64
  TCPCount :: u64
  TCPConnect :: u64

text \<open>rpc line\<close>

record NFSdRPC =
  RPCCount :: u64
  BadCnt :: u64
  BadFmt :: u64
  BadAuth :: u64
  BadcInt :: u64

text \<open>proc2 line: NFSv2 Stats\<close>

record NFSdv2Stats =
  Values :: u64
  Null :: u64
  GetAttr :: u64
  SetAttr :: u64
  Root :: u64
  Lookup :: u64
  ReadLink :: u64
  Read :: u64
  WrCache :: u64
  Write :: u64
  Create :: u64
  Remove :: u64
  Rename :: u64
  Link :: u64
  SymLink :: u64
  MkDir :: u64
  RmDir :: u64
  ReadDir :: u64
  FsStat :: u64

text \<open>proc3 line: NFSv3 Stats\<close>

record NFSdv3Stats =
  Values :: u64
  Null :: u64
  GetAttr :: u64
  SetAttr :: u64
  Lookup :: u64
  Access :: u64
  ReadLink :: u64
  Read :: u64
  Write :: u64
  Create :: u64
  MkDir :: u64
  SymLink :: u64
  MkNod :: u64
  Remove :: u64
  RmDir :: u64
  Rename :: u64
  Link :: u64
  ReadDir :: u64
  ReadDirPlus :: u64
  FsStat :: u64
  FsInfo :: u64
  PathConf :: u64
  Commit :: u64

text \<open>proc4 line: NFSv4 Stats\<close>

record NFSdv4Stats =
  Values :: u64
  Null :: u64
  Compound :: u64

text \<open>proc4ops line: NFSv4 operations\<close>

record NFSdv4Ops =
  Values :: u64
  Op0Unused :: u64
  Op1Unused :: u64
  Op2Future :: u64
  Access :: u64
  Close :: u64
  Commit :: u64
  Create :: u64
  DelegPurge :: u64
  DelegReturn :: u64
  GetAttr :: u64
  GetFH :: u64
  Link :: u64
  Lock :: u64
  Lockt :: u64
  Locku :: u64
  Lookup :: u64
  LookupRoot :: u64
  Nverify :: u64
  Open :: u64
  OpenAttr :: u64
  OpenConfirm :: u64
  OpenDgrd :: u64
  PutFH :: u64
  PutPubFH :: u64
  PutRootFH :: u64
  Read :: u64
  ReadDir :: u64
  ReadLink :: u64
  Remove :: u64
  Rename :: u64
  Renew :: u64
  RestoreFH :: u64
  SaveFH :: u64
  SecInfo :: u64
  SetAttr :: u64
  Verify :: u64
  Write :: u64
  RelLockOwner :: u64

text \<open>
  All stats from /proc/net/rpc/nfsd. The source's struct has a twelfth field, of its own
  type (\<open>NFSdRPCStats NFSdRPCStats\<close>); a struct cannot hold itself by value, no statement
  of the source reads or writes that field, and the record leaves it out.
\<close>

record NFSdRPCStats =
  NFSdReplyCache :: NFSdReplyCache
  NFSdFileHandles :: NFSdFileHandles
  NFSdInputOutput :: NFSdInputOutput
  NFSdThreads :: NFSdThreads
  NFSdReadAheadCache :: NFSdReadAheadCache
  NFSdNetwork :: NFSdNetwork
  NFSdRPC :: NFSdRPC
  NFSdv2Stats :: NFSdv2Stats
  NFSdv3Stats :: NFSdv3Stats
  NFSdv4Stats :: NFSdv4Stats
  NFSdv4Ops :: NFSdv4Ops

subsection \<open>Zero values\<close>

text \<open>Go's composite literal \<open>T{}\<close>: every counter 0, the array ten zeros.\<close>

definition zero_NFSdReplyCache :: NFSdReplyCache where
  "zero_NFSdReplyCache = \<lparr>Hits = 0, Misses = 0, NoCache = 0\<rparr>"

definition zero_NFSdFileHandles :: NFSdFileHandles where
  "zero_NFSdFileHandles =
     \<lparr>Stale = 0, TotalLookups = 0, AnonLookups = 0, DirNoCache = 0, NoDirNoCache = 0\<rparr>"

definition zero_NFSdInputOutput :: NFSdInputOutput where
  "zero_NFSdInputOutput = \<lparr>NFSdInputOutput.Read = 0, NFSdInputOutput.Write = 0\<rparr>"

definition zero_NFSdThreads :: NFSdThreads where
  "zero_NFSdThreads = \<lparr>Threads = 0, FullCnt = 0\<rparr>"

definition zero_NFSdReadAheadCache :: NFSdReadAheadCache where
  "zero_NFSdReadAheadCache = \<lparr>CacheSize = 0, CacheHistogram = replicate 10 0, NotFound = 0\<rparr>"

definition zero_NFSdNetwork :: NFSdNetwork where
  "zero_NFSdNetwork = \<lparr>NetCount = 0, UDPCount = 0, TCPCount = 0, TCPConnect = 0\<rparr>"

definition zero_NFSdRPC :: NFSdRPC where
  "zero_NFSdRPC = \<lparr>RPCCount = 0, BadCnt = 0, BadFmt = 0, BadAuth = 0, BadcInt = 0\<rparr>"

definition zero_NFSdv2Stats :: NFSdv2Stats where
  "zero_NFSdv2Stats =
     \<lparr>NFSdv2Stats.Values = 0, NFSdv2Stats.Null = 0, NFSdv2Stats.GetAttr = 0,
      NFSdv2Stats.SetAttr = 0, Root = 0, NFSdv2Stats.Lookup = 0, NFSdv2Stats.ReadLink = 0,
      NFSdv2Stats.Read = 0, WrCache = 0, NFSdv2Stats.Write = 0, NFSdv2Stats.Create = 0,
      NFSdv2Stats.Remove = 0, NFSdv2Stats.Rename = 0, NFSdv2Stats.Link = 0,
      NFSdv2Stats.SymLink = 0, NFSdv2Stats.MkDir = 0, NFSdv2Stats.RmDir = 0,
      NFSdv2Stats.ReadDir = 0, NFSdv2Stats.FsStat = 0\<rparr>"

definition zero_NFSdv3Stats :: NFSdv3Stats where
  "zero_NFSdv3Stats =
     \<lparr>NFSdv3Stats.Values = 0, NFSdv3Stats.Null = 0, NFSdv3Stats.GetAttr = 0,
      NFSdv3Stats.SetAttr = 0, NFSdv3Stats.Lookup = 0, NFSdv3Stats.Access = 0,
      NFSdv3Stats.ReadLink = 0, NFSdv3Stats.Read = 0, NFSdv3Stats.Write = 0,
      NFSdv3Stats.Create = 0, MkDir = 0, SymLink = 0, MkNod = 0, NFSdv3Stats.Remove = 0,
      RmDir = 0, NFSdv3Stats.Rename = 0, NFSdv3Stats.Link = 0, NFSdv3Stats.ReadDir = 0,
      ReadDirPlus = 0, FsStat = 0, FsInfo = 0, PathConf = 0, NFSdv3Stats.Commit = 0\<rparr>"

definition zero_NFSdv4Stats :: NFSdv4Stats where
  "zero_NFSdv4Stats = \<lparr>NFSdv4Stats.Values = 0, Null = 0, Compound = 0\<rparr>"

definition zero_NFSdv4Ops :: NFSdv4Ops where
  "zero_NFSdv4Ops =
     \<lparr>Values = 0, Op0Unused = 0, Op1Unused = 0, Op2Future = 0, Access = 0, Close = 0,
      Commit = 0, Create = 0, DelegPurge = 0, DelegReturn = 0, GetAttr = 0, GetFH = 0,
      Link = 0, Lock = 0, Lockt = 0, Locku = 0, Lookup = 0, LookupRoot = 0, Nverify = 0,
      Open = 0, OpenAttr = 0, OpenConfirm = 0, OpenDgrd = 0, PutFH = 0, PutPubFH = 0,
      PutRootFH = 0, Read = 0, ReadDir = 0, ReadLink = 0, Remove = 0, Rename = 0, Renew = 0,
      RestoreFH = 0, SaveFH = 0, SecInfo = 0, SetAttr = 0, Verify = 0, Write = 0,
      RelLockOwner = 0\<rparr>"

definition zero_NFSdRPCStats :: NFSdRPCStats where
  "zero_NFSdRPCStats =
     \<lparr>NFSdReplyCache = zero_NFSdReplyCache,
      NFSdFileHandles = zero_NFSdFileHandles,
      NFSdInputOutput = zero_NFSdInputOutput,
      NFSdThreads = zero_NFSdThreads,
      NFSdReadAheadCache = zero_NFSdReadAheadCache,
      NFSdNetwork = zero_NFSdNetwork,
      NFSdRPC = zero_NFSdRPC,
      NFSdv2Stats = zero_NFSdv2Stats,
      NFSdv3Stats = zero_NFSdv3Stats,
      NFSdv4Stats = zero_NFSdv4Stats,
      NFSdv4Ops = zero_NFSdv4Ops\<rparr>"

section \<open>Library functions the source calls\<close>

subsection \<open>strings.Fields\<close>

text \<open>
  Go's \<open>strings.Fields\<close> splits a string around each run of white space, as
  \<open>unicode.IsSpace\<close> defines it, and returns the non-empty pieces. A string is a list of
  bytes here. The one-byte white-space characters are tab, line feed, vertical tab, form
  feed, carriage return and space; the others are U+0085 and U+00A0 (two bytes in UTF-8) and
  U+1680, U+2000 to U+200A, U+2028, U+2029, U+202F, U+205F and U+3000 (three bytes).
  \<open>spaceWidth s\<close> is the number of bytes of the white-space character \<open>s\<close> starts with, 0
  when it starts with none.
\<close>

definition asciiSpace :: "char \<Rightarrow> bool" where
  "asciiSpace c =
     (c = CHR 0x09 \<or> c = CHR 0x0A \<or> c = CHR 0x0B \<or> c = CHR 0x0C \<or> c = CHR 0x0D \<or> c = CHR 0x20)"

definition unicodeSpace2 :: "string list" where
  "unicodeSpace2 = [[CHR 0xC2, CHR 0x85], [CHR 0xC2, CHR 0xA0]]"

definition unicodeSpace3 :: "string list" where
  "unicodeSpace3 =
     [[CHR 0xE1, CHR 0x9A, CHR 0x80],
      [CHR 0xE2, CHR 0x80, CHR 0x80], [CHR 0xE2, CHR 0x80, CHR 0x81],
      [CHR 0xE2, CHR 0x80, CHR 0x82], [CHR 0xE2, CHR 0x80, CHR 0x83],
      [CHR 0xE2, CHR 0x80, CHR 0x84], [CHR 0xE2, CHR 0x80, CHR 0x85],
      [CHR 0xE2, CHR 0x80, CHR 0x86], [CHR 0xE2, CHR 0x80, CHR 0x87],
      [CHR 0xE2, CHR 0x80, CHR 0x88], [CHR 0xE2, CHR 0x80, CHR 0x89],
      [CHR 0xE2, CHR 0x80, CHR 0x8A],
      [CHR 0xE2, CHR 0x80, CHR 0xA8], [CHR 0xE2, CHR 0x80, CHR 0xA9],
      [CHR 0xE2, CHR 0x80, CHR 0xAF], [CHR 0xE2, CHR 0x81, CHR 0x9F],
      [CHR 0xE3, CHR 0x80, CHR 0x80]]"

definition spaceWidth :: "string \<Rightarrow> nat" where
  "spaceWidth s =
     (case s of
        [] \<Rightarrow> 0
      | c # _ \<Rightarrow>
          if asciiSpace c then 1
          else if List.member unicodeSpace2 (take 2 s) then 2
          else if List.member unicodeSpace3 (take 3 s) then 3
          else 0)"

text \<open>
  \<open>fieldsFrom skip cur s\<close> walks the bytes once: \<open>cur\<close> is the field being collected
  and \<open>skip\<close> counts the bytes still to drop of a white-space character of several bytes.
\<close>

fun fieldsFrom :: "nat \<Rightarrow> string \<Rightarrow> string \<Rightarrow> string list" where
  "fieldsFrom skip cur [] = (if cur = [] then [] else [cur])"
| "fieldsFrom skip cur (c # cs) =
     (if 0 < skip then fieldsFrom (skip - 1) cur cs
      else if 0 < spaceWidth (c # cs)
        then (if cur = [] then [] else [cur]) @ fieldsFrom (spaceWidth (c # cs) - 1) [] cs
      else fieldsFrom 0 (cur @ [c]) cs)"

definition Fields :: "string \<Rightarrow> string list" where
  "Fields s = fieldsFrom 0 [] s"

subsection \<open>strconv.ParseInt\<close>

text \<open>
  Modelled from the spec: the base and the bit size of the conversion, which the source's
  call \<open>strconv.ParseInt(line[0])\<close> leaves out; the spec's words are base 10 and 64 bits.
  The rest is Go's \<open>strconv.ParseInt(s, 10, 64)\<close>: an optional sign \<open>+\<close> or \<open>-\<close>, then
  one or more decimal digits and nothing else; the value must fit a signed 64-bit integer.
  \<open>None\<close> stands for a non-nil error (syntax or range).
\<close>

definition isDigit :: "char \<Rightarrow> bool" where
  "isDigit c = (48 \<le> (of_char c :: int) \<and> (of_char c :: int) \<le> 57)"

definition digitVal :: "char \<Rightarrow> int" where
  "digitVal c = of_char c - 48"

fun digitsVal :: "int \<Rightarrow> string \<Rightarrow> int option" where
  "digitsVal n [] = Some n"
| "digitsVal n (c # cs) = (if isDigit c then digitsVal (n * 10 + digitVal c) cs else None)"

definition ParseUint :: "string \<Rightarrow> int option" where
  "ParseUint s =
     (if s = [] then None
      else case digitsVal 0 s of
             None \<Rightarrow> None
           | Some n \<Rightarrow> if n < 2 ^ 64 then Some n else None)"

definition ParseInt :: "string \<Rightarrow> int option" where
  "ParseInt s =
     (case s of
        [] \<Rightarrow> None
      | c # cs \<Rightarrow>
          let neg = (c = CHR ''-'');
              digits = (if c = CHR ''+'' \<or> c = CHR ''-'' then cs else s)
          in case ParseUint digits of
               None \<Rightarrow> None
             | Some un \<Rightarrow>
                 if \<not> neg \<and> 2 ^ 63 \<le> un then None
                 else if neg \<and> 2 ^ 63 < un then None
                 else Some (if neg then - un else un))"

text \<open>
  The source puts the parsed value into a \<open>uint64\<close> field: the conversion keeps the 64
  bits, so a value that is not negative is kept as it is.
\<close>

definition toUint64 :: "int \<Rightarrow> u64" where
  "toUint64 n = word_of_int n"

section \<open>Errors\<close>

text \<open>
  The source builds every error with \<open>fmt.Errorf\<close>. There is one constructor for each
  place that returns an error, carrying the values the message is formatted from:
  \<^item> \<open>ArityMismatch line\<close>: \<open>invalid NFSdReplyCache line %q\<close> (parseNFSdReplyCache, the
    length check);
  \<^item> \<open>InvalidNumber field token\<close>: \<open>couldn't parse NFSdReplyCache <field> %q\<close>
    (parseNFSdReplyCache, after each conversion);
  \<^item> \<open>MalformedLine line\<close>: \<open>invalid NFSd metric line %q\<close> with the whole line (fewer than
    two fields);
  \<^item> \<open>UnknownRecordType key\<close>: \<open>invalid NFSd metric line %q\<close> with the first field
    (the \<open>default\<close> case of the switch);
  \<^item> \<open>ErrorParsingNFSdReplyCache err\<close>: \<open>error parsing NFSdReplyCache: %s\<close>, wrapping the
    decoder's error;
  \<^item> \<open>OpenError err\<close>: the error of \<open>os.Open\<close>, returned as it is;
  \<^item> \<open>StreamReadError name err\<close>: \<open>couldn't parse %s: %s\<close> with the file's name and the
    scanner's error.
\<close>

datatype error =
    ArityMismatch "string list"
  | InvalidNumber string string
  | MalformedLine string
  | UnknownRecordType string
  | ErrorParsingNFSdReplyCache error
  | OpenError string
  | StreamReadError string string

section \<open>parseNFSdReplyCache\<close>

text \<open>
  The decoder of the rc line. The source declares its parameter as \<open>[]byte\<close>, calls it
  with \<open>parts[1:]\<close>, a slice of strings, and converts \<open>line[0]\<close>, \<open>line[1]\<close>, \<open>line[2]\<close> as
  strings: the parameter is the list of the value tokens. Each conversion that fails returns
  at once, so the error names the first token that does not convert.
\<close>

definition parseNFSdReplyCache :: "string list \<Rightarrow> error + NFSdReplyCache" where
  "parseNFSdReplyCache line =
     (if length line \<noteq> 3 then Inl (ArityMismatch line)
      else case ParseInt (line ! 0) of
        None \<Rightarrow> Inl (InvalidNumber ''hits'' (line ! 0))
      | Some hits \<Rightarrow>
      (case ParseInt (line ! 1) of
        None \<Rightarrow> Inl (InvalidNumber ''misses'' (line ! 1))
      | Some misses \<Rightarrow>
      (case ParseInt (line ! 2) of
        None \<Rightarrow> Inl (InvalidNumber ''nocache'' (line ! 2))
      | Some nocache \<Rightarrow>
          Inr \<lparr>Hits = toUint64 hits, Misses = toUint64 misses, NoCache = toUint64 nocache\<rparr>)))"

section \<open>NewNFSdRPCStats\<close>

text \<open>
  What the function reads: the result of \<open>os.Open\<close>, either an error or a file with its
  name, the lines the \<open>bufio.Scanner\<close> delivers in order (\<open>scanner.Text()\<close> after each
  successful \<open>scanner.Scan()\<close>), and the error \<open>scanner.Err()\<close> reports once the scan has
  stopped.
\<close>

record osFile =
  Name :: string
  Lines :: "string list"
  Err :: "string option"

text \<open>
  The body of the \<open>for scanner.Scan()\<close> loop on one line: \<open>Inl\<close> is a \<open>return nil, err\<close>,
  \<open>Inr\<close> the aggregate with which the loop goes on. The \<open>rc\<close> case binds the decoded
  record to the local \<open>replyCache\<close> and assigns it nowhere; the nine cases after it
  are empty (a Go \<open>case\<close> does not fall through); there is no case for \<open>net\<close>.
\<close>

definition scanLine :: "NFSdRPCStats \<Rightarrow> string \<Rightarrow> error + NFSdRPCStats" where
  "scanLine stats line =
     (let parts = Fields line in
      if length parts < 2 then Inl (MalformedLine line)
      else
        let metricLine = parts ! 0 in
        if metricLine = ''rc'' then
          (case parseNFSdReplyCache (drop 1 parts) of
             Inl err \<Rightarrow> Inl (ErrorParsingNFSdReplyCache err)
           | Inr replyCache \<Rightarrow> Inr stats)
        else if metricLine = ''fh'' then Inr stats
        else if metricLine = ''io'' then Inr stats
        else if metricLine = ''th'' then Inr stats
        else if metricLine = ''ra'' then Inr stats
        else if metricLine = ''rpc'' then Inr stats
        else if metricLine = ''proc2'' then Inr stats
        else if metricLine = ''proc3'' then Inr stats
        else if metricLine = ''proc4'' then Inr stats
        else if metricLine = ''proc4ops'' then Inr stats
        else Inl (UnknownRecordType metricLine))"

fun scanLoop :: "NFSdRPCStats \<Rightarrow> string list \<Rightarrow> error + NFSdRPCStats" where
  "scanLoop stats [] = Inr stats"
| "scanLoop stats (line # rest) =
     (case scanLine stats line of
        Inl err \<Rightarrow> Inl err
      | Inr stats' \<Rightarrow> scanLoop stats' rest)"

definition NewNFSdRPCStats :: "string + osFile \<Rightarrow> error + NFSdRPCStats" where
  "NewNFSdRPCStats opened =
     (case opened of
        Inl err \<Rightarrow> Inl (OpenError err)
      | Inr f \<Rightarrow>
          (case scanLoop zero_NFSdRPCStats (Lines f) of
             Inl err \<Rightarrow> Inl err
           | Inr stats \<Rightarrow>
               (case Err f of
                  Some err \<Rightarrow> Inl (StreamReadError (Name f) err)
                | None \<Rightarrow> Inr stats)))"

subsection \<open>A file for the examples\<close>

text \<open>
  \<open>procFile ls\<close> is the file \<open>/proc/net/rpc/nfsd\<close> (the path \<open>fs.Path("net/rpc/nfsd")\<close>
  under the usual mount point), opened, holding the lines \<open>ls\<close> and read to its end
  without a read error.
\<close>

definition procFile :: "string list \<Rightarrow> osFile" where
  "procFile ls = \<lparr>Name = ''/proc/net/rpc/nfsd'', Lines = ls, Err = None\<rparr>"

section \<open>Properties\<close>

subsection \<open>The dispatch on one line\<close>

lemma scanLine_short:
  "length (Fields line) < 2 \<Longrightarrow> scanLine stats line = Inl (MalformedLine line)"
  by (simp add: scanLine_def)

lemma scanLine_rc:
  "Fields line = ''rc'' # t # ts \<Longrightarrow>
   scanLine stats line =
     (case parseNFSdReplyCache (t # ts) of
        Inl err \<Rightarrow> Inl (ErrorParsingNFSdReplyCache err)
      | Inr replyCache \<Rightarrow> Inr stats)"
  by (simp add: scanLine_def)

lemma scanLine_empty_case:
  "Fields line = k # t # ts \<Longrightarrow>
   k \<in> {''fh'', ''io'', ''th'', ''ra'', ''rpc'', ''proc2'', ''proc3'', ''proc4'', ''proc4ops''} \<Longrightarrow>
   scanLine stats line = Inr stats"
  by (auto simp add: scanLine_def)

lemma scanLine_default:
  "Fields line = k # t # ts \<Longrightarrow>
   k \<notin> {''rc'', ''fh'', ''io'', ''th'', ''ra'', ''rpc'', ''proc2'', ''proc3'', ''proc4'', ''proc4ops''} \<Longrightarrow>
   scanLine stats line = Inl (UnknownRecordType k)"
  by (simp add: scanLine_def)

lemma scanLine_keeps: "scanLine stats line = Inr stats' \<Longrightarrow> stats' = stats"
  by (auto simp add: scanLine_def Let_def split: if_splits sum.splits)

lemma scanLine_err_any_stats: "scanLine stats line = Inl e \<Longrightarrow> scanLine stats' line = Inl e"
  by (auto simp add: scanLine_def Let_def split: if_splits sum.splits)

lemma scanLoop_keeps: "scanLoop stats ls = Inr stats' \<Longrightarrow> stats' = stats"
proof (induction ls arbitrary: stats)
  case Nil
  then show ?case by simp
next
  case (Cons l ls)
  then show ?case
    by (auto split: sum.splits dest: scanLine_keeps)
qed

lemma scanLoop_append:
  "scanLoop stats (xs @ ys) =
     (case scanLoop stats xs of Inl e \<Rightarrow> Inl e | Inr stats' \<Rightarrow> scanLoop stats' ys)"
  by (induction xs arbitrary: stats) (auto split: sum.splits)

lemma scanLoop_first_error:
  "scanLoop stats pre = Inr s0 \<Longrightarrow> scanLine s0 line = Inl e \<Longrightarrow>
   scanLoop stats (pre @ line # post) = Inl e"
  by (simp add: scanLoop_append)

lemma scanLoop_error_split:
  "scanLoop stats ls = Inl e \<Longrightarrow>
   \<exists>pre line post. ls = pre @ line # post \<and> scanLoop stats pre = Inr stats
      \<and> scanLine stats line = Inl e"
proof (induction ls arbitrary: stats)
  case Nil
  then show ?case by simp
next
  case (Cons l ls)
  show ?case
  proof (cases "scanLine stats l")
    case (Inl e')
    with Cons.prems have "e' = e" by simp
    with Inl have "l # ls = [] @ l # ls \<and> scanLoop stats [] = Inr stats \<and> scanLine stats l = Inl e"
      by simp
    then show ?thesis by blast
  next
    case (Inr s1)
    then have s1: "s1 = stats" by (rule scanLine_keeps)
    with Inr Cons.prems have "scanLoop stats ls = Inl e" by simp
    from Cons.IH [OF this] obtain pre line post where
      h: "ls = pre @ line # post" "scanLoop stats pre = Inr stats" "scanLine stats line = Inl e"
      by blast
    from h Inr s1 have "l # ls = (l # pre) @ line # post \<and> scanLoop stats (l # pre) = Inr stats
       \<and> scanLine stats line = Inl e"
      by simp
    then show ?thesis by blast
  qed
qed

lemma NewNFSdRPCStats_first_error:
  assumes "Lines f = pre @ line # post"
    and "scanLoop zero_NFSdRPCStats pre = Inr s0"
    and "scanLine stats line = Inl e"
  shows "NewNFSdRPCStats (Inr f) = Inl e"
proof -
  from assms(3) have "scanLine s0 line = Inl e" by (rule scanLine_err_any_stats)
  with assms(2) have "scanLoop zero_NFSdRPCStats (pre @ line # post) = Inl e"
    by (rule scanLoop_first_error)
  with assms(1) show ?thesis by (simp add: NewNFSdRPCStats_def)
qed

subsection \<open>Number conversion and the reply-cache decoder\<close>





lemma parseNFSdReplyCache_arity:
  "length line \<noteq> 3 \<Longrightarrow> parseNFSdReplyCache line = Inl (ArityMismatch line)"
  by (simp add: parseNFSdReplyCache_def)

section \<open>The claims\<close>

text \<open>
  Claim C1: on every well-formed input the parse succeeds and every counter of the returned
  aggregate equals the token it was read from. The source does not do this. At the file
  whose one line is \<open>rc 8352 2 0\<close> the parse succeeds, and the aggregate it returns is
  the zero value: \<open>Hits\<close> is 0, not 8352. The decoder's result is bound to the local
  \<open>replyCache\<close> and assigned nowhere.
\<close>

theorem rc_counters_not_stored:
  "NewNFSdRPCStats (Inr (procFile [''rc 8352 2 0''])) = Inr zero_NFSdRPCStats
   \<and> Hits (NFSdReplyCache zero_NFSdRPCStats) = 0
   \<and> Hits (NFSdReplyCache zero_NFSdRPCStats) \<noteq> 8352"
  by code_simp

text \<open>
  Claim C2: whenever the parse succeeds, the aggregate it returns is the zero-initialised
  one: no case of the dispatch stores anything into it.
\<close>

theorem NewNFSdRPCStats_returns_zero:
  "NewNFSdRPCStats opened = Inr stats \<Longrightarrow> stats = zero_NFSdRPCStats"
  by (auto simp add: NewNFSdRPCStats_def split: sum.splits option.splits
      dest: scanLoop_keeps)

theorem NewNFSdRPCStats_returns_zero_witness:
  "NewNFSdRPCStats (Inr (procFile [''rc 8352 2 0'', ''fh 0 13 0 0 0'', ''proc4ops 2 1 2'']))
     = Inr zero_NFSdRPCStats
   \<and> NoCache (NFSdReplyCache zero_NFSdRPCStats) = 0"
proof -
  have h: "NewNFSdRPCStats
      (Inr (procFile [''rc 8352 2 0'', ''fh 0 13 0 0 0'', ''proc4ops 2 1 2'']))
      = Inr zero_NFSdRPCStats"
    by code_simp
  have "NoCache (NFSdReplyCache zero_NFSdRPCStats) = 0"
    by (simp add: zero_NFSdRPCStats_def zero_NFSdReplyCache_def)
  with NewNFSdRPCStats_returns_zero [OF h] h show ?thesis by simp
qed

text \<open>
  Claim C3: a line whose first token is one of rc, fh, io, th, ra, net, rpc, proc2, proc3,
  proc4, proc4ops is dispatched and not rejected as an unknown record type; any other first
  token is. The switch of the source has no case for \<open>net\<close>, although the source declares
  the struct of the net line and a field for it in the aggregate: the line
  \<open>net 18718 0 18718 3\<close> falls to the \<open>default\<close> case and the parse fails, citing \<open>net\<close>.
\<close>

theorem net_line_rejected:
  "NewNFSdRPCStats (Inr (procFile [''net 18718 0 18718 3''])) = Inl (UnknownRecordType ''net'')"
  by code_simp

text \<open>
  Claim C4: a proc4ops line declaring V counters decodes the V tokens after the count in
  order, and fails with an arity mismatch when another number of tokens follows;
  \<open>proc4ops 2 1 2\<close> decodes Values 2 with the counters 1 and 2, and \<open>proc4ops 2 1\<close> must
  fail. The source does not do this: the case of proc4ops is empty, although the source
  declares the struct of the proc4ops line and its field in the aggregate. On \<open>proc4ops 2 1\<close>
  the parse succeeds, and on \<open>proc4ops 2 1 2\<close> the aggregate returned is the zero value,
  with Values 0 and the first two counters 0.
\<close>

theorem proc4ops_line_ignored:
  "NewNFSdRPCStats (Inr (procFile [''proc4ops 2 1''])) = Inr zero_NFSdRPCStats
   \<and> NewNFSdRPCStats (Inr (procFile [''proc4ops 2 1 2''])) = Inr zero_NFSdRPCStats
   \<and> Values (NFSdv4Ops zero_NFSdRPCStats) = 0
   \<and> Op0Unused (NFSdv4Ops zero_NFSdRPCStats) = 0
   \<and> Op1Unused (NFSdv4Ops zero_NFSdRPCStats) = 0"
  by code_simp

text \<open>
  Claim C5, as stated: every line of a record of fixed arity with another number of value
  tokens fails with an arity mismatch, an rc line with any number other than 3 among them.
  Neither half holds for every line: \<open>fh 1\<close>, one token where the struct has five fields, is
  accepted, and \<open>rc\<close> alone, with no value token, fails on the check for two fields, before
  the decoder is reached.
\<close>

theorem fixed_arity_not_enforced:
  "NewNFSdRPCStats (Inr (procFile [''fh 1''])) = Inr zero_NFSdRPCStats
   \<and> NewNFSdRPCStats (Inr (procFile [''rc''])) = Inl (MalformedLine ''rc'')"
  by code_simp

text \<open>
  Claim C5, amended: an rc line is the one the source checks. If every line before it is
  accepted, an rc line with at least one value token and not exactly three makes the parse
  fail with the decoder's arity mismatch, wrapped as a reply-cache error, and no aggregate is
  returned; an rc line with no value token fails as a malformed line.
\<close>

theorem rc_arity_mismatch:
  assumes "Lines f = pre @ line # post"
    and "scanLoop zero_NFSdRPCStats pre = Inr s0"
    and "Fields line = ''rc'' # toks"
  shows "(toks \<noteq> [] \<and> length toks \<noteq> 3 \<longrightarrow>
            NewNFSdRPCStats (Inr f) = Inl (ErrorParsingNFSdReplyCache (ArityMismatch toks)))
       \<and> (toks = [] \<longrightarrow> NewNFSdRPCStats (Inr f) = Inl (MalformedLine line))"
proof (intro conjI impI)
  assume t: "toks \<noteq> [] \<and> length toks \<noteq> 3"
  then obtain t ts where ts: "toks = t # ts" by (cases toks) auto
  with assms(3) have "scanLine zero_NFSdRPCStats line =
      (case parseNFSdReplyCache (t # ts) of
         Inl err \<Rightarrow> Inl (ErrorParsingNFSdReplyCache err)
       | Inr replyCache \<Rightarrow> Inr zero_NFSdRPCStats)"
    by (simp add: scanLine_rc)
  with t ts have "scanLine zero_NFSdRPCStats line
      = Inl (ErrorParsingNFSdReplyCache (ArityMismatch toks))"
    by (simp add: parseNFSdReplyCache_arity)
  with assms(1,2) show "NewNFSdRPCStats (Inr f)
      = Inl (ErrorParsingNFSdReplyCache (ArityMismatch toks))"
    by (rule NewNFSdRPCStats_first_error)
next
  assume "toks = []"
  with assms(3) have "length (Fields line) < 2" by simp
  then have "scanLine zero_NFSdRPCStats line = Inl (MalformedLine line)"
    by (rule scanLine_short)
  with assms(1,2) show "NewNFSdRPCStats (Inr f) = Inl (MalformedLine line)"
    by (rule NewNFSdRPCStats_first_error)
qed

theorem rc_arity_mismatch_witness:
  "Fields ''rc 8352 2'' = ''rc'' # [''8352'', ''2'']
   \<and> NewNFSdRPCStats (Inr (procFile [''th 8 0'', ''rc 8352 2'', ''io 1 2'']))
       = Inl (ErrorParsingNFSdReplyCache (ArityMismatch [''8352'', ''2'']))"
proof -
  have a: "Lines (procFile [''th 8 0'', ''rc 8352 2'', ''io 1 2''])
      = [''th 8 0''] @ ''rc 8352 2'' # [''io 1 2'']"
    by (simp add: procFile_def)
  have b: "scanLoop zero_NFSdRPCStats [''th 8 0''] = Inr zero_NFSdRPCStats"
    by code_simp
  have c: "Fields ''rc 8352 2'' = ''rc'' # [''8352'', ''2'']"
    by code_simp
  from rc_arity_mismatch [OF a b c] c show ?thesis by simp
qed

text \<open>
  Claim C6: an ra line needs exactly 12 value tokens, any other number fails with an arity
  mismatch, and \<open>ra 256 10 20 30 0 0 0 0 0 0 5 40\<close> decodes to CacheSize 256, the histogram
  10, 20, 30, 0, 0, 0, 0, 0, 0, 5 and NotFound 40 in the result. The source does not do
  this: the case of ra is empty, although the source declares the struct of the ra line and
  its field in the aggregate. On the well-formed line the aggregate returned is the zero
  value, with CacheSize 0, ten zero buckets and NotFound 0, and on \<open>ra 256\<close>, one value
  token, the parse succeeds.
\<close>

theorem ra_line_ignored:
  "NewNFSdRPCStats (Inr (procFile [''ra 256 10 20 30 0 0 0 0 0 0 5 40''])) = Inr zero_NFSdRPCStats
   \<and> CacheSize (NFSdReadAheadCache zero_NFSdRPCStats) = 0
   \<and> CacheHistogram (NFSdReadAheadCache zero_NFSdRPCStats) = [0, 0, 0, 0, 0, 0, 0, 0, 0, 0]
   \<and> NotFound (NFSdReadAheadCache zero_NFSdRPCStats) = 0
   \<and> NewNFSdRPCStats (Inr (procFile [''ra 256''])) = Inr zero_NFSdRPCStats"
  by code_simp




text \<open>
  Claim C8, as stated: a malformed-line failure needs a line that is not empty, and an empty
  line does not make the parse fail. It does: the empty line has no field, which is fewer
  than two, and the parse of a file holding one empty line fails with the malformed-line
  error.
\<close>

theorem empty_line_fails:
  "Fields '''' = [] \<and> NewNFSdRPCStats (Inr (procFile [''''])) = Inl (MalformedLine '''')"
  by code_simp

text \<open>
  Claim C8, amended: the parse fails with the malformed-line error citing a line exactly
  when that line, empty or not, splits into fewer than two fields and every line before it
  is accepted. An empty line splits into no field, so it makes the parse fail in this way.
\<close>

theorem malformed_line_iff:
  "(NewNFSdRPCStats (Inr f) = Inl (MalformedLine l) \<longleftrightarrow>
      (\<exists>pre post. Lines f = pre @ l # post
         \<and> scanLoop zero_NFSdRPCStats pre = Inr zero_NFSdRPCStats
         \<and> length (Fields l) < 2))
   \<and> length (Fields '''') = 0"
proof (intro conjI iffI)
  assume r: "NewNFSdRPCStats (Inr f) = Inl (MalformedLine l)"
  then have "scanLoop zero_NFSdRPCStats (Lines f) = Inl (MalformedLine l)"
    by (auto simp add: NewNFSdRPCStats_def split: sum.splits option.splits)
  then obtain pre line post where
    h: "Lines f = pre @ line # post"
      "scanLoop zero_NFSdRPCStats pre = Inr zero_NFSdRPCStats"
      "scanLine zero_NFSdRPCStats line = Inl (MalformedLine l)"
    by (blast dest: scanLoop_error_split)
  from h(3) have "line = l \<and> length (Fields l) < 2"
    by (auto simp add: scanLine_def Let_def split: if_splits sum.splits)
  with h(1,2) show "\<exists>pre post. Lines f = pre @ l # post
      \<and> scanLoop zero_NFSdRPCStats pre = Inr zero_NFSdRPCStats \<and> length (Fields l) < 2"
    by blast
next
  assume "\<exists>pre post. Lines f = pre @ l # post
      \<and> scanLoop zero_NFSdRPCStats pre = Inr zero_NFSdRPCStats \<and> length (Fields l) < 2"
  then obtain pre post where
    h: "Lines f = pre @ l # post"
      "scanLoop zero_NFSdRPCStats pre = Inr zero_NFSdRPCStats"
      "length (Fields l) < 2"
    by blast
  from h(3) have "scanLine zero_NFSdRPCStats l = Inl (MalformedLine l)"
    by (rule scanLine_short)
  with h(1,2) show "NewNFSdRPCStats (Inr f) = Inl (MalformedLine l)"
    by (rule NewNFSdRPCStats_first_error)
next
  show "length (Fields '''') = 0"
    by (simp add: Fields_def)
qed

theorem malformed_line_iff_witness:
  "length (Fields ''rc'') < 2
   \<and> NewNFSdRPCStats (Inr (procFile [''io 1 2'', ''rc'', ''th 8 0''])) = Inl (MalformedLine ''rc'')"
proof -
  have a: "Lines (procFile [''io 1 2'', ''rc'', ''th 8 0'']) = [''io 1 2''] @ ''rc'' # [''th 8 0'']"
    by (simp add: procFile_def)
  have b: "scanLoop zero_NFSdRPCStats [''io 1 2''] = Inr zero_NFSdRPCStats"
    by code_simp
  have c: "length (Fields ''rc'') < 2"
    by code_simp
  from a b c have "\<exists>pre post. Lines (procFile [''io 1 2'', ''rc'', ''th 8 0'']) = pre @ ''rc'' # post
      \<and> scanLoop zero_NFSdRPCStats pre = Inr zero_NFSdRPCStats \<and> length (Fields ''rc'') < 2"
    by blast
  with malformed_line_iff [of "procFile [''io 1 2'', ''rc'', ''th 8 0'']" "''rc''"] c
  show ?thesis by blast
qed

text \<open>
  Claim C9: the line \<open>rc 8352 2 0\<close> decodes to the reply-cache record with Hits 8352,
  Misses 2 and NoCache 0; the order of the fields is fixed: the first value token is Hits,
  the second Misses, the third NoCache, none moved and none skipped. The tokens the
  dispatcher hands to the decoder are the fields of the line after the first.
\<close>

theorem parseNFSdReplyCache_field_order:
  "Fields ''rc 8352 2 0'' = [''rc'', ''8352'', ''2'', ''0'']
   \<and> parseNFSdReplyCache (drop 1 (Fields ''rc 8352 2 0''))
       = Inr \<lparr>Hits = 8352, Misses = 2, NoCache = 0\<rparr>
   \<and> (\<forall>a b c x y z.
         ParseInt a = Some x \<and> ParseInt b = Some y \<and> ParseInt c = Some z \<longrightarrow>
         parseNFSdReplyCache [a, b, c]
           = Inr \<lparr>Hits = toUint64 x, Misses = toUint64 y, NoCache = toUint64 z\<rparr>)"
proof (intro conjI)
  show "Fields ''rc 8352 2 0'' = [''rc'', ''8352'', ''2'', ''0'']"
    by code_simp
  show "parseNFSdReplyCache (drop 1 (Fields ''rc 8352 2 0''))
      = Inr \<lparr>Hits = 8352, Misses = 2, NoCache = 0\<rparr>"
    by code_simp
  show "\<forall>a b c x y z.
      ParseInt a = Some x \<and> ParseInt b = Some y \<and> ParseInt c = Some z \<longrightarrow>
      parseNFSdReplyCache [a, b, c]
        = Inr \<lparr>Hits = toUint64 x, Misses = toUint64 y, NoCache = toUint64 z\<rparr>"
    by (simp add: parseNFSdReplyCache_def)
qed

theorem parseNFSdReplyCache_field_order_witness:
  "ParseInt ''7'' = Some 7 \<and> ParseInt ''8'' = Some 8 \<and> ParseInt ''9'' = Some 9
   \<and> parseNFSdReplyCache [''7'', ''8'', ''9''] = Inr \<lparr>Hits = 7, Misses = 8, NoCache = 9\<rparr>"
proof -
  have a: "ParseInt ''7'' = Some 7" by code_simp
  have b: "ParseInt ''8'' = Some 8" by code_simp
  have c: "ParseInt ''9'' = Some 9" by code_simp
  from parseNFSdReplyCache_field_order a b c
  have "parseNFSdReplyCache [''7'', ''8'', ''9'']
      = Inr \<lparr>Hits = toUint64 7, Misses = toUint64 8, NoCache = toUint64 9\<rparr>"
    by blast
  with a b c show ?thesis by (simp add: toUint64_def)
qed

end
